theory Spec2Isabelle
  imports Main "HOL-Library.Sublist"
begin

section \<open>The offline-caching service workers\<close>

text \<open>
  The repository holds two service-worker scripts: \<^verbatim>\<open>src/sw.js\<close> (cache version
  \<^verbatim>\<open>emergency-system-v1.0.1\<close>) and \<^verbatim>\<open>src/unnamed/part_000\<close> (cache version
  \<^verbatim>\<open>emergency-system-v1.0.0\<close>). Both register listeners for the same events and use the
  same names for their constants, so the definitions translated from \<^verbatim>\<open>src/sw.js\<close> carry
  the source's names (with the prefix \<open>sw_\<close> for its anonymous listeners) and those
  translated from \<^verbatim>\<open>src/unnamed/part_000\<close> carry the prefix or suffix \<open>p0\<close>.

  The browser is not part of the repository. What the scripts call of it is modelled as
  the platform documents it: \<open>CacheStorage\<close> (\<open>caches.open\<close>, \<open>caches.keys\<close>,
  \<open>caches.delete\<close>, \<open>caches.match\<close>), \<open>Cache\<close> (\<open>match\<close>, \<open>put\<close>, \<open>add\<close>,
  \<open>addAll\<close>, \<open>delete\<close>), and \<open>fetch\<close>, \<open>Response.json\<close> and the worker's origin as
  parameters (the record \<open>platform\<close>). A handler's asynchronous work is modelled by the
  state it leaves once all the promises it started have settled.
\<close>

subsection \<open>Requests, responses, errors\<close>

datatype error = NetworkError string | TypeError string | SyntaxError string

record request =
  url :: string
  req_method :: string
  req_headers :: "(string \<times> string) list"

text \<open>
  A response body is text, absent (\<open>new Response(undefined)\<close>), or the inline offline page
  of \<^verbatim>\<open>src/sw.js\<close> lines 125 to 177 (a template literal of markup; no claim depends on its
  characters).
\<close>

datatype body = NoBody | Text string | OfflinePageMarkup

record response =
  status :: nat
  rtype :: string
  headers :: "(string \<times> string) list"
  body :: body

text \<open>Header names are kept in lower case, as the \<open>Headers\<close> object normalises them.\<close>

definition header_get :: "(string \<times> string) list \<Rightarrow> string \<Rightarrow> string option" where
  "header_get hs name = map_of hs name"

text \<open>\<open>String.prototype.includes\<close>: the second string occurs in the first.\<close>

fun str_includes :: "string \<Rightarrow> string \<Rightarrow> bool" where
  "str_includes [] sub = (sub = [])"
| "str_includes (c # cs) sub = (prefix sub (c # cs) \<or> str_includes cs sub)"

text \<open>\<open>new Response(body, {headers})\<close>: status 200 and type \<open>default\<close>.\<close>

definition new_Response :: "body \<Rightarrow> (string \<times> string) list \<Rightarrow> response" where
  "new_Response b hs = \<lparr>status = 200, rtype = ''default'', headers = hs, body = b\<rparr>"

subsection \<open>The platform\<close>

record platform =
  origin :: string
  net :: "request \<Rightarrow> error + response"
  json_ok :: "string \<Rightarrow> bool"

text \<open>
  \<open>origin\<close> is \<open>self.location.origin\<close>; \<open>net\<close> is \<open>fetch\<close>, which resolves with a
  \<open>Response\<close> object or rejects (so the first disjunct of the guards
  \<open>!networkResponse || ...\<close> never fires); \<open>json_ok\<close> says whether \<open>JSON.parse\<close> accepts a
  text.
\<close>

text \<open>A request made from a URL string: the path resolved against the origin, \<open>GET\<close>.\<close>

definition request_of :: "platform \<Rightarrow> string \<Rightarrow> request" where
  "request_of p path = \<lparr>url = origin p @ path, req_method = ''GET'', req_headers = []\<rparr>"

text \<open>\<open>Response.json()\<close> rejects with a \<open>SyntaxError\<close> when the body is not JSON.\<close>

definition response_json :: "platform \<Rightarrow> response \<Rightarrow> error + unit" where
  "response_json p r =
     (case body r of
        Text s \<Rightarrow> (if json_ok p s then Inr () else Inl (SyntaxError ''Unexpected token''))
      | NoBody \<Rightarrow> Inl (SyntaxError ''Unexpected end of JSON input'')
      | OfflinePageMarkup \<Rightarrow> Inl (SyntaxError ''Unexpected token''))"

subsection \<open>The Cache Store\<close>

text \<open>
  A cache maps the URL of a \<open>GET\<close> request to the stored response. The storage is the
  list of named caches in the order of their creation, which is the order
  \<open>caches.match\<close> searches and \<open>caches.keys\<close> lists.
\<close>

type_synonym cache = "string \<rightharpoonup> response"

type_synonym storage = "(string \<times> cache) list"

definition entry :: "storage \<Rightarrow> string \<Rightarrow> string \<Rightarrow> response option" where
  "entry cs name key = (case map_of cs name of None \<Rightarrow> None | Some c \<Rightarrow> c key)"

definition caches_open :: "string \<Rightarrow> storage \<Rightarrow> storage" where
  "caches_open name cs =
     (case map_of cs name of None \<Rightarrow> cs @ [(name, Map.empty)] | Some c \<Rightarrow> cs)"

definition caches_keys :: "storage \<Rightarrow> string list" where
  "caches_keys cs = map fst cs"

definition caches_delete :: "string \<Rightarrow> storage \<Rightarrow> storage" where
  "caches_delete name cs = filter (\<lambda>nc. fst nc \<noteq> name) cs"

fun match_url :: "storage \<Rightarrow> string \<Rightarrow> response option" where
  "match_url [] u = None"
| "match_url (nc # cs) u = (case snd nc u of Some r \<Rightarrow> Some r | None \<Rightarrow> match_url cs u)"

text \<open>
  \<open>caches.match(request)\<close>: a request whose method is not \<open>GET\<close> matches nothing.
  The model keeps one response for a URL in each cache and compares URLs as they are
  written: it says nothing of what the browser's matching adds (a stored response whose
  \<open>Vary\<close> header names a request header that differs, URLs that differ in their
  fragment only). The theorems about a hit or a miss take the answer of \<open>caches.match\<close>
  as their hypothesis and do not depend on how it is computed.
\<close>

definition caches_match :: "storage \<Rightarrow> request \<Rightarrow> response option" where
  "caches_match cs req = (if req_method req = ''GET'' then match_url cs (url req) else None)"

definition cache_put :: "string \<Rightarrow> string \<Rightarrow> response \<Rightarrow> storage \<Rightarrow> storage" where
  "cache_put name key r cs =
     map (\<lambda>nc. if fst nc = name then (fst nc, (snd nc)(key \<mapsto> r)) else nc) cs"

definition cache_delete :: "string \<Rightarrow> string \<Rightarrow> storage \<Rightarrow> storage" where
  "cache_delete name key cs =
     map (\<lambda>nc. if fst nc = name then (fst nc, (snd nc)(key := None)) else nc) cs"

text \<open>
  The values of a comma-separated header, without the blanks around them, and whether
  a response's \<open>Vary\<close> header holds \<open>*\<close>.
\<close>

fun split_on :: "char \<Rightarrow> string \<Rightarrow> string list" where
  "split_on d [] = [[]]"
| "split_on d (c # cs) =
     (if c = d then [] # split_on d cs
      else (case split_on d cs of [] \<Rightarrow> [[c]] | w # ws \<Rightarrow> (c # w) # ws))"

definition trim :: "string \<Rightarrow> string" where
  "trim s = rev (dropWhile (\<lambda>c. c = CHR '' '') (rev (dropWhile (\<lambda>c. c = CHR '' '') s)))"

definition vary_star :: "response \<Rightarrow> bool" where
  "vary_star r =
     (case header_get (headers r) ''vary'' of
        None \<Rightarrow> False
      | Some v \<Rightarrow> ''*'' \<in> set (map trim (split_on CHR '','' v)))"

text \<open>
  \<open>cache.put(request, response)\<close> with a request object rejects with a \<open>TypeError\<close> when
  the request's method is not \<open>GET\<close>, when the response's status is 206, and when the
  response's \<open>Vary\<close> header holds \<open>*\<close>.
\<close>

definition cache_put_request ::
  "string \<Rightarrow> request \<Rightarrow> response \<Rightarrow> storage \<Rightarrow> error + storage" where
  "cache_put_request name req r cs =
     (if req_method req \<noteq> ''GET'' then Inl (TypeError ''Request method is unsupported'')
      else if status r = 206 then Inl (TypeError ''Partial response is unsupported'')
      else if vary_star r then Inl (TypeError ''Vary header contains *'')
      else Inr (cache_put name (url req) r cs))"

text \<open>
  A put whose promise nobody awaits (\<^verbatim>\<open>src/sw.js\<close> line 105, \<^verbatim>\<open>part_000\<close> line 83): a
  rejection leaves the storage as it was and reaches no handler.
\<close>

definition put_unawaited :: "string \<Rightarrow> request \<Rightarrow> response \<Rightarrow> storage \<Rightarrow> storage" where
  "put_unawaited name req r cs =
     (case cache_put_request name req r cs of Inr cs' \<Rightarrow> cs' | Inl e \<Rightarrow> cs)"

text \<open>
  \<open>cache.add(url)\<close>: fetch the URL and store the response, rejecting when the fetch
  rejects, when the response's status is outside 200 to 299 (\<open>response.ok\<close> is false)
  or is 206, and when the response's \<open>Vary\<close> header holds \<open>*\<close>.
\<close>

definition response_ok :: "response \<Rightarrow> bool" where
  "response_ok r = (200 \<le> status r \<and> status r \<le> 299)"

definition add_accepts :: "response \<Rightarrow> bool" where
  "add_accepts r = (response_ok r \<and> status r \<noteq> 206 \<and> \<not> vary_star r)"

definition cache_add :: "platform \<Rightarrow> string \<Rightarrow> string \<Rightarrow> storage \<Rightarrow> error + storage" where
  "cache_add p name path cs =
     (case net p (request_of p path) of
        Inl e \<Rightarrow> Inl e
      | Inr r \<Rightarrow>
          if add_accepts r then Inr (cache_put name (origin p @ path) r cs)
          else Inl (TypeError ''Request failed''))"

text \<open>
  \<open>cache.addAll(urls)\<close>: fetch every URL; when one fetch rejects or gives a response
  that \<open>cache.add\<close> would refuse, the whole call rejects and nothing is stored.
\<close>

fun fetch_all :: "platform \<Rightarrow> string list \<Rightarrow> error + (string \<times> response) list" where
  "fetch_all p [] = Inr []"
| "fetch_all p (path # paths) =
     (case net p (request_of p path) of
        Inl e \<Rightarrow> Inl e
      | Inr r \<Rightarrow>
          if add_accepts r
          then (case fetch_all p paths of
                  Inl e \<Rightarrow> Inl e
                | Inr rs \<Rightarrow> Inr ((origin p @ path, r) # rs))
          else Inl (TypeError ''Request failed''))"

fun put_all :: "string \<Rightarrow> (string \<times> response) list \<Rightarrow> storage \<Rightarrow> storage" where
  "put_all name [] cs = cs"
| "put_all name (kr # krs) cs = put_all name krs (cache_put name (fst kr) (snd kr) cs)"

definition cache_addAll ::
  "platform \<Rightarrow> string \<Rightarrow> string list \<Rightarrow> storage \<Rightarrow> error + storage" where
  "cache_addAll p name paths cs =
     (case fetch_all p paths of Inl e \<Rightarrow> Inl e | Inr rs \<Rightarrow> Inr (put_all name rs cs))"

subsection \<open>What a handler leaves behind\<close>

text \<open>
  Every handler returns its result, the storage as it leaves it, the requests it sent to
  the network, and what it wrote with \<open>console.warn\<close> and \<open>console.error\<close>
  (\<open>console.log\<close> lines are not modelled).
\<close>

record 'r out =
  result :: 'r
  store :: storage
  fetched :: "request list"
  console :: "string list"

text \<open>
  The result of a fetch listener: it returned without \<open>respondWith\<close>, or the promise it
  gave to \<open>respondWith\<close> resolved with a response, resolved with \<open>undefined\<close>, or
  rejected.
\<close>

datatype fetch_result =
  NotIntercepted | Responded response | RespondedAbsent | Failed error

datatype lifecycle = Installing | Installed | Activating | Active | Redundant

datatype settled = Resolved | Rejected error

subsection \<open>\<^verbatim>\<open>src/sw.js\<close>\<close>

definition CACHE_NAME :: string where
  "CACHE_NAME = ''emergency-system-v1.0.1''"

definition OFFLINE_URL :: string where
  "OFFLINE_URL = ''/offline.html''"

definition STATIC_CACHE_URLS :: "string list" where
  "STATIC_CACHE_URLS = [''/'', ''/index.html'', ''/offline.html'', ''/manifest.json'']"

text \<open>The page synthesised when \<open>/offline.html\<close> is not cached (lines 125 to 182).\<close>

definition inline_offline_page :: response where
  "inline_offline_page =
     new_Response OfflinePageMarkup
       [(''content-type'', ''text/html''), (''cache-control'', ''no-cache'')]"

text \<open>\<open>event.request.headers.get('accept')?.includes('text/html')\<close> (line 118).\<close>

definition accepts_html :: "request \<Rightarrow> bool" where
  "accepts_html req =
     (case header_get (req_headers req) ''accept'' of
        None \<Rightarrow> False
      | Some a \<Rightarrow> str_includes a ''text/html'')"

text \<open>The fetch listener (lines 67 to 191).\<close>

definition sw_fetch :: "platform \<Rightarrow> storage \<Rightarrow> request \<Rightarrow> fetch_result out" where
  "sw_fetch p cs req =
     (if \<not> prefix ''http'' (url req)
      then \<lparr>result = NotIntercepted, store = cs, fetched = [], console = []\<rparr>
      else if \<not> prefix (origin p) (url req)
      then \<lparr>result = NotIntercepted, store = cs, fetched = [], console = []\<rparr>
      else
        (case caches_match cs req of
           Some cachedResponse \<Rightarrow>
             \<lparr>result = Responded cachedResponse, store = cs, fetched = [], console = []\<rparr>
         | None \<Rightarrow>
             (case net p req of
                Inr networkResponse \<Rightarrow>
                  if status networkResponse \<noteq> 200 \<or> rtype networkResponse \<noteq> ''basic''
                  then \<lparr>result = Responded networkResponse, store = cs,
                        fetched = [req], console = []\<rparr>
                  else
                    \<lparr>result = Responded networkResponse,
                     store =
                       (let cs' = caches_open CACHE_NAME cs
                        in if req_method req = ''GET''
                           then put_unawaited CACHE_NAME req networkResponse cs'
                           else cs'),
                     fetched = [req], console = []\<rparr>
              | Inl error \<Rightarrow>
                  if accepts_html req
                  then
                    (case match_url cs (origin p @ OFFLINE_URL) of
                       Some offlineResponse \<Rightarrow>
                         \<lparr>result = Responded offlineResponse, store = cs,
                          fetched = [req], console = []\<rparr>
                     | None \<Rightarrow>
                         \<lparr>result = Responded inline_offline_page, store = cs,
                          fetched = [req], console = []\<rparr>)
                  else \<lparr>result = Failed error, store = cs,
                        fetched = [req], console = []\<rparr>)))"

text \<open>
  The install listener (lines 13 to 39), for any list of assets. The \<open>cache.add\<close> calls
  run side by side under \<open>Promise.all\<close>; each has its own \<open>catch\<close>, which warns and
  resolves. They are modelled in the order of the list.
\<close>

definition failed_to_cache :: "string \<Rightarrow> string" where
  "failed_to_cache path = ''[SW] Failed to cache '' @ path @ '':''"

fun add_each :: "platform \<Rightarrow> string list \<Rightarrow> storage \<Rightarrow> string list \<Rightarrow> storage \<times> string list" where
  "add_each p [] cs log = (cs, log)"
| "add_each p (u # us) cs log =
     (case cache_add p CACHE_NAME u cs of
        Inr cs' \<Rightarrow> add_each p us cs' log
      | Inl err \<Rightarrow> add_each p us cs (log @ [failed_to_cache u]))"

definition sw_install_with :: "platform \<Rightarrow> string list \<Rightarrow> storage \<Rightarrow> lifecycle out" where
  "sw_install_with p urls cs =
     (let done = add_each p urls (caches_open CACHE_NAME cs) []
      in \<lparr>result = Installed, store = fst done,
          fetched = map (request_of p) urls, console = snd done\<rparr>)"

definition sw_install :: "platform \<Rightarrow> storage \<Rightarrow> lifecycle out" where
  "sw_install p cs = sw_install_with p STATIC_CACHE_URLS cs"

text \<open>
  The activate listener (lines 42 to 64): \<open>caches.delete\<close> for every name of
  \<open>caches.keys()\<close> that differs from \<open>CACHE_NAME\<close>, and \<open>clients.claim()\<close>.
\<close>

fun delete_old :: "string \<Rightarrow> string list \<Rightarrow> storage \<Rightarrow> storage" where
  "delete_old current [] cs = cs"
| "delete_old current (cacheName # cacheNames) cs =
     delete_old current cacheNames
       (if cacheName \<noteq> current then caches_delete cacheName cs else cs)"

definition sw_activate :: "storage \<Rightarrow> lifecycle out" where
  "sw_activate cs =
     \<lparr>result = Active, store = delete_old CACHE_NAME (caches_keys cs) cs,
      fetched = [], console = []\<rparr>"

text \<open>
  The sync functions (lines 278 to 322). Nothing is sent anywhere (\<open>Here you would send
  the data to your server\<close>): the entry is read, parsed, and deleted. The \<open>catch\<close> logs
  and throws the error again.
\<close>

definition syncEmergencyData :: "platform \<Rightarrow> storage \<Rightarrow> settled out" where
  "syncEmergencyData p cs =
     (let cs' = caches_open CACHE_NAME cs
      in case entry cs' CACHE_NAME (origin p @ ''/emergency-data.json'') of
           None \<Rightarrow> \<lparr>result = Resolved, store = cs', fetched = [], console = []\<rparr>
         | Some cachedData \<Rightarrow>
             (case response_json p cachedData of
                Inr data \<Rightarrow>
                  \<lparr>result = Resolved,
                   store = cache_delete CACHE_NAME (origin p @ ''/emergency-data.json'') cs',
                   fetched = [], console = []\<rparr>
              | Inl error \<Rightarrow>
                  \<lparr>result = Rejected error, store = cs', fetched = [],
                   console = [''[SW] Emergency data sync failed:'']\<rparr>))"

definition syncStudentScans :: "platform \<Rightarrow> storage \<Rightarrow> settled out" where
  "syncStudentScans p cs =
     (let cs' = caches_open CACHE_NAME cs
      in case entry cs' CACHE_NAME (origin p @ ''/student-scans.json'') of
           None \<Rightarrow> \<lparr>result = Resolved, store = cs', fetched = [], console = []\<rparr>
         | Some cachedData \<Rightarrow>
             (case response_json p cachedData of
                Inr scans \<Rightarrow>
                  \<lparr>result = Resolved,
                   store = cache_delete CACHE_NAME (origin p @ ''/student-scans.json'') cs',
                   fetched = [], console = []\<rparr>
              | Inl error \<Rightarrow>
                  \<lparr>result = Rejected error, store = cs', fetched = [],
                   console = [''[SW] Student scans sync failed:'']\<rparr>))"

text \<open>The sync listener (lines 194 to 202); another tag starts nothing.\<close>

definition sw_sync :: "platform \<Rightarrow> string \<Rightarrow> storage \<Rightarrow> settled out" where
  "sw_sync p tag cs =
     (if tag = ''emergency-data-sync'' then syncEmergencyData p cs
      else if tag = ''student-scans-sync'' then syncStudentScans p cs
      else \<lparr>result = Resolved, store = cs, fetched = [], console = []\<rparr>)"


text \<open>
  The message listener (lines 263 to 275). A message is represented by what the
  listener reads of it: for \<open>CACHE_EMERGENCY_DATA\<close>, what \<open>JSON.stringify\<close> makes of the
  payload (a text, \<open>undefined\<close>, or an exception, in which case nothing is written).
\<close>

datatype stringified = JsonText string | JsonUndefined | JsonThrows

datatype message = CACHE_EMERGENCY_DATA stringified | SKIP_WAITING | OtherMessage

definition sw_message :: "platform \<Rightarrow> message \<Rightarrow> storage \<Rightarrow> storage" where
  "sw_message p msg cs =
     (case msg of
        CACHE_EMERGENCY_DATA payload \<Rightarrow>
          (let cs' = caches_open CACHE_NAME cs
           in case payload of
                JsonText s \<Rightarrow>
                  cache_put CACHE_NAME (origin p @ ''/emergency-data.json'')
                    (new_Response (Text s) [(''content-type'', ''text/plain;charset=UTF-8'')]) cs'
              | JsonUndefined \<Rightarrow>
                  cache_put CACHE_NAME (origin p @ ''/emergency-data.json'')
                    (new_Response NoBody []) cs'
              | JsonThrows \<Rightarrow> cs')
      | SKIP_WAITING \<Rightarrow> cs
      | OtherMessage \<Rightarrow> cs)"

subsection \<open>\<^verbatim>\<open>src/unnamed/part_000\<close>\<close>

definition CACHE_NAME_p0 :: string where
  "CACHE_NAME_p0 = ''emergency-system-v1.0.0''"

definition OFFLINE_URL_p0 :: string where
  "OFFLINE_URL_p0 = ''/assets/offline.html''"

definition urlsToCache :: "string list" where
  "urlsToCache =
     [''/'', ''/index.html'', ''/manifest.json'', ''/assets/offline.html'',
      ''/icons/icon-192.png'', ''/icons/icon-512.png'', ''/icons/icon-maskable.png'']"

text \<open>
  The fetch listener (lines 53 to 96). \<open>headers.get('accept')\<close> is \<open>null\<close> when the
  request has no such header, and \<open>null.includes\<close> throws a \<open>TypeError\<close> inside the
  \<open>catch\<close> callback (line 90); a callback that falls off its end resolves with
  \<open>undefined\<close>.
\<close>

definition p0_fetch :: "platform \<Rightarrow> storage \<Rightarrow> request \<Rightarrow> fetch_result out" where
  "p0_fetch p cs req =
     (if \<not> prefix (origin p) (url req)
      then \<lparr>result = NotIntercepted, store = cs, fetched = [], console = []\<rparr>
      else
        (case caches_match cs req of
           Some cachedResponse \<Rightarrow>
             \<lparr>result = Responded cachedResponse, store = cs, fetched = [], console = []\<rparr>
         | None \<Rightarrow>
             (case net p req of
                Inr response \<Rightarrow>
                  if status response \<noteq> 200 \<or> rtype response \<noteq> ''basic''
                  then \<lparr>result = Responded response, store = cs,
                        fetched = [req], console = []\<rparr>
                  else
                    \<lparr>result = Responded response,
                     store = put_unawaited CACHE_NAME_p0 req response
                               (caches_open CACHE_NAME_p0 cs),
                     fetched = [req], console = []\<rparr>
              | Inl error \<Rightarrow>
                  (case header_get (req_headers req) ''accept'' of
                     None \<Rightarrow>
                       \<lparr>result = Failed (TypeError ''Cannot read properties of null''),
                        store = cs, fetched = [req], console = []\<rparr>
                   | Some a \<Rightarrow>
                       if str_includes a ''text/html''
                       then
                         (case match_url cs (origin p @ OFFLINE_URL_p0) of
                            Some offlineResponse \<Rightarrow>
                              \<lparr>result = Responded offlineResponse, store = cs,
                               fetched = [req], console = []\<rparr>
                          | None \<Rightarrow>
                              \<lparr>result = RespondedAbsent, store = cs,
                               fetched = [req], console = []\<rparr>)
                       else \<lparr>result = RespondedAbsent, store = cs,
                             fetched = [req], console = []\<rparr>))))"

text \<open>
  The install listener (lines 17 to 30), for any list of assets: one \<open>cache.addAll\<close>,
  with no \<open>catch\<close>, so its rejection rejects the promise given to \<open>waitUntil\<close> and the
  worker is discarded.
\<close>

definition p0_install_with :: "platform \<Rightarrow> string list \<Rightarrow> storage \<Rightarrow> lifecycle out" where
  "p0_install_with p urls cs =
     (let cs' = caches_open CACHE_NAME_p0 cs
      in case cache_addAll p CACHE_NAME_p0 urls cs' of
           Inr cs'' \<Rightarrow>
             \<lparr>result = Installed, store = cs'',
              fetched = map (request_of p) urls, console = []\<rparr>
         | Inl error \<Rightarrow>
             \<lparr>result = Redundant, store = cs',
              fetched = map (request_of p) urls, console = []\<rparr>)"

definition p0_install :: "platform \<Rightarrow> storage \<Rightarrow> lifecycle out" where
  "p0_install p cs = p0_install_with p urlsToCache cs"

text \<open>The activate listener (lines 33 to 50).\<close>

definition p0_activate :: "storage \<Rightarrow> lifecycle out" where
  "p0_activate cs =
     \<lparr>result = Active, store = delete_old CACHE_NAME_p0 (caches_keys cs) cs,
      fetched = [], console = []\<rparr>"

text \<open>
  \<open>syncQueuedData\<close> (lines 149 to 165): its \<open>catch\<close> logs the error and returns, so the
  function's promise resolves.
\<close>

definition syncQueuedData :: "platform \<Rightarrow> storage \<Rightarrow> settled out" where
  "syncQueuedData p cs =
     (let cs' = caches_open CACHE_NAME_p0 cs
      in case entry cs' CACHE_NAME_p0 (origin p @ ''/queued-data'') of
           None \<Rightarrow> \<lparr>result = Resolved, store = cs', fetched = [], console = []\<rparr>
         | Some queuedData \<Rightarrow>
             (case response_json p queuedData of
                Inr data \<Rightarrow>
                  \<lparr>result = Resolved,
                   store = cache_delete CACHE_NAME_p0 (origin p @ ''/queued-data'') cs',
                   fetched = [], console = []\<rparr>
              | Inl error \<Rightarrow>
                  \<lparr>result = Resolved, store = cs', fetched = [],
                   console = [''[SW] Sync failed:'']\<rparr>))"

text \<open>The sync listener (lines 99 to 104).\<close>

definition p0_sync :: "platform \<Rightarrow> string \<Rightarrow> storage \<Rightarrow> settled out" where
  "p0_sync p tag cs =
     (if tag = ''background-sync'' then syncQueuedData p cs
      else \<lparr>result = Resolved, store = cs, fetched = [], console = []\<rparr>)"

subsection \<open>Concrete inputs\<close>

text \<open>
  Inputs at which the theorems below are instantiated: a worker at
  \<open>https://app.example\<close>, with the network down or up, a navigation request, two API
  requests (with and without an \<open>accept\<close> header), a \<open>POST\<close>, and some storages.
\<close>

definition page :: response where
  "page = \<lparr>status = 200, rtype = ''basic'', headers = [(''content-type'', ''text/html'')],
            body = Text ''page''\<rparr>"

definition offline_platform :: platform where
  "offline_platform =
     \<lparr>origin = ''https://app.example'',
      net = (\<lambda>req. Inl (NetworkError ''Failed to fetch'')),
      json_ok = (\<lambda>s. s = ''[1]'')\<rparr>"

definition online_platform :: platform where
  "online_platform =
     \<lparr>origin = ''https://app.example'',
      net = (\<lambda>req. if url req = ''https://app.example/icons/icon-512.png''
                   then Inl (NetworkError ''Failed to fetch'') else Inr page),
      json_ok = (\<lambda>s. s = ''[1]'')\<rparr>"

definition page_request :: request where
  "page_request =
     \<lparr>url = ''https://app.example/index.html'', req_method = ''GET'',
      req_headers = [(''accept'', ''text/html,application/xhtml+xml'')]\<rparr>"

definition api_request :: request where
  "api_request =
     \<lparr>url = ''https://app.example/api/data'', req_method = ''GET'',
      req_headers = [(''accept'', ''application/json'')]\<rparr>"

definition bare_request :: request where
  "bare_request =
     \<lparr>url = ''https://app.example/api/data'', req_method = ''GET'', req_headers = []\<rparr>"

definition post_request :: request where
  "post_request =
     \<lparr>url = ''https://app.example/api/report'', req_method = ''POST'',
      req_headers = [(''accept'', ''application/json'')]\<rparr>"

definition warm_store :: storage where
  "warm_store = [(CACHE_NAME, [''https://app.example/index.html'' \<mapsto> page])]"

definition old_store :: storage where
  "old_store =
     [(CACHE_NAME_p0, [''https://app.example/index.html'' \<mapsto> page]),
      (''images'', Map.empty)]"

definition fallback_store :: storage where
  "fallback_store = [(CACHE_NAME, [''https://app.example/offline.html'' \<mapsto> page])]"



definition broken_store_p0 :: storage where
  "broken_store_p0 =
     [(CACHE_NAME_p0, [''https://app.example/queued-data'' \<mapsto> new_Response NoBody []])]"

subsection \<open>Assets that cannot be cached\<close>

text \<open>
  An asset is unreachable when fetching it rejects or gives a response that \<open>cache.add\<close>
  refuses (a status outside 200 to 299, the status 206, a \<open>Vary\<close> header that holds
  \<open>*\<close>): what makes \<open>cache.add\<close> and \<open>cache.addAll\<close> reject.
\<close>

definition unreachable :: "platform \<Rightarrow> string \<Rightarrow> bool" where
  "unreachable p path =
     (case net p (request_of p path) of Inl e \<Rightarrow> True | Inr r \<Rightarrow> \<not> add_accepts r)"

section \<open>Properties\<close>

subsection \<open>Facts about the Cache Store\<close>

lemma map_of_cache_put:
  "map_of (cache_put name key r cs) n =
     (case map_of cs n of
        None \<Rightarrow> None
      | Some c \<Rightarrow> Some (if n = name then c(key \<mapsto> r) else c))"
  by (induction cs) (auto simp: cache_put_def)

lemma entry_caches_open: "entry (caches_open name cs) n k = entry cs n k"
  by (auto simp: entry_def caches_open_def split: option.splits if_splits)

lemma entry_cache_put:
  "entry (cache_put name key r cs) n k =
     (if n = name \<and> k = key \<and> map_of cs name \<noteq> None then Some r else entry cs n k)"
  by (auto simp: entry_def map_of_cache_put split: option.splits)

lemma map_of_caches_open_self: "map_of (caches_open name cs) name \<noteq> None"
  by (auto simp: caches_open_def map_add_def split: option.splits)

lemma caches_open_present: "map_of cs name \<noteq> None \<Longrightarrow> caches_open name cs = cs"
  by (auto simp: caches_open_def)

lemma map_of_cache_delete:
  "map_of (cache_delete name key cs) n =
     (case map_of cs n of
        None \<Rightarrow> None
      | Some c \<Rightarrow> Some (if n = name then c(key := None) else c))"
  by (induction cs) (auto simp: cache_delete_def)

lemma entry_cache_delete:
  "entry (cache_delete name key cs) n k =
     (if n = name \<and> k = key then None else entry cs n k)"
  by (auto simp: entry_def map_of_cache_delete split: option.splits)

lemma caches_keys_cache_put: "caches_keys (cache_put name key r cs) = caches_keys cs"
  by (induction cs) (auto simp: caches_keys_def cache_put_def)

lemma caches_keys_put_all: "caches_keys (put_all name krs cs) = caches_keys cs"
  by (induction krs arbitrary: cs) (auto simp: caches_keys_cache_put)

lemma caches_keys_caches_open:
  "caches_keys (caches_open name cs) =
     (if name \<in> set (caches_keys cs) then caches_keys cs else caches_keys cs @ [name])"
  by (force simp: caches_open_def caches_keys_def map_of_eq_None_iff
        dest: map_of_SomeD split: option.splits)

lemma caches_keys_add_each:
  "caches_keys (fst (add_each p us cs log)) = caches_keys cs"
  by (induction us arbitrary: cs log)
     (auto simp: cache_add_def caches_keys_cache_put split: sum.splits if_splits)

lemma delete_old_filter:
  "delete_old cur names cs = filter (\<lambda>nc. fst nc = cur \<or> fst nc \<notin> set names) cs"
  by (induction names arbitrary: cs) (auto simp: caches_delete_def intro: filter_cong)

lemma delete_old_keys:
  "delete_old cur (caches_keys cs) cs = filter (\<lambda>nc. fst nc = cur) cs"
  unfolding delete_old_filter by (rule filter_cong) (auto simp: caches_keys_def)

lemma keys_filter_current:
  "set (caches_keys (filter (\<lambda>nc. fst nc = cur) cs)) = set (caches_keys cs) \<inter> {cur}"
  by (auto simp: caches_keys_def)

lemma keys_filter_distinct:
  "distinct (caches_keys cs) \<Longrightarrow> cur \<in> set (caches_keys cs) \<Longrightarrow>
   caches_keys (filter (\<lambda>nc. fst nc = cur) cs) = [cur]"
proof (induction cs)
  case Nil
  then show ?case by (simp add: caches_keys_def)
next
  case (Cons nc cs)
  show ?case
  proof (cases "fst nc = cur")
    case True
    with Cons.prems have "cur \<notin> fst ` set cs" by (auto simp: caches_keys_def)
    then have "filter (\<lambda>nc. fst nc = cur) cs = []" by (auto simp: filter_empty_conv)
    with True show ?thesis by (simp add: caches_keys_def)
  next
    case False
    with Cons show ?thesis by (auto simp: caches_keys_def)
  qed
qed

lemma entry_filter_current:
  "entry (filter (\<lambda>nc. fst nc = cur) cs) cur k = entry cs cur k"
  by (induction cs) (auto simp: entry_def)

lemma sw_activate_store: "store (sw_activate cs) = filter (\<lambda>nc. fst nc = CACHE_NAME) cs"
  by (simp add: sw_activate_def delete_old_keys)

lemma p0_activate_store: "store (p0_activate cs) = filter (\<lambda>nc. fst nc = CACHE_NAME_p0) cs"
  by (simp add: p0_activate_def delete_old_keys)

lemma sw_install_keys:
  "caches_keys (store (sw_install_with p urls cs)) = caches_keys (caches_open CACHE_NAME cs)"
  by (simp add: sw_install_with_def Let_def caches_keys_add_each)

lemma p0_install_keys:
  "caches_keys (store (p0_install_with p urls cs)) = caches_keys (caches_open CACHE_NAME_p0 cs)"
  by (simp add: p0_install_with_def Let_def cache_addAll_def caches_keys_put_all
      split: sum.splits)

lemma entry_present_open: "entry cs name k = Some r \<Longrightarrow> caches_open name cs = cs"
  by (auto simp: entry_def caches_open_def split: option.splits)

lemma syncEmergencyData_result:
  "result (syncEmergencyData p cs) =
     (case entry cs CACHE_NAME (origin p @ ''/emergency-data.json'') of
        None \<Rightarrow> Resolved
      | Some r \<Rightarrow> (case response_json p r of Inr d \<Rightarrow> Resolved | Inl e \<Rightarrow> Rejected e))"
  by (simp add: syncEmergencyData_def Let_def entry_caches_open split: option.splits sum.splits)

lemma syncEmergencyData_entry:
  "entry (store (syncEmergencyData p cs)) n k =
     (if n = CACHE_NAME \<and> k = origin p @ ''/emergency-data.json''
         \<and> result (syncEmergencyData p cs) = Resolved
      then None else entry cs n k)"
  by (auto simp: syncEmergencyData_def Let_def entry_caches_open entry_cache_delete
      split: option.splits sum.splits)

lemma syncEmergencyData_rejected:
  "result (syncEmergencyData p cs) = Rejected e \<Longrightarrow> store (syncEmergencyData p cs) = cs"
  by (auto simp: syncEmergencyData_def Let_def entry_caches_open entry_present_open
      split: option.splits sum.splits)

lemma syncStudentScans_result:
  "result (syncStudentScans p cs) =
     (case entry cs CACHE_NAME (origin p @ ''/student-scans.json'') of
        None \<Rightarrow> Resolved
      | Some r \<Rightarrow> (case response_json p r of Inr d \<Rightarrow> Resolved | Inl e \<Rightarrow> Rejected e))"
  by (simp add: syncStudentScans_def Let_def entry_caches_open split: option.splits sum.splits)

lemma syncStudentScans_entry:
  "entry (store (syncStudentScans p cs)) n k =
     (if n = CACHE_NAME \<and> k = origin p @ ''/student-scans.json''
         \<and> result (syncStudentScans p cs) = Resolved
      then None else entry cs n k)"
  by (auto simp: syncStudentScans_def Let_def entry_caches_open entry_cache_delete
      split: option.splits sum.splits)

lemma syncStudentScans_rejected:
  "result (syncStudentScans p cs) = Rejected e \<Longrightarrow> store (syncStudentScans p cs) = cs"
  by (auto simp: syncStudentScans_def Let_def entry_caches_open entry_present_open
      split: option.splits sum.splits)



lemma reserved_keys_differ:
  "origin p @ ''/emergency-data.json'' \<noteq> origin p @ ''/student-scans.json''"
  by simp

lemma entry_sw_message_text:
  "entry (sw_message p (CACHE_EMERGENCY_DATA (JsonText s)) cs) CACHE_NAME
     (origin p @ ''/emergency-data.json'')
   = Some (new_Response (Text s) [(''content-type'', ''text/plain;charset=UTF-8'')])"
  by (simp add: sw_message_def Let_def entry_cache_put map_of_caches_open_self)

lemma fetch_all_fails:
  "u \<in> set urls \<Longrightarrow> unreachable p u \<Longrightarrow> \<exists>e. fetch_all p urls = Inl e"
  by (induction urls) (auto simp: unreachable_def split: sum.splits)

lemma add_each_open:
  "map_of cs CACHE_NAME \<noteq> None \<Longrightarrow> map_of (fst (add_each p us cs log)) CACHE_NAME \<noteq> None"
  by (induction us arbitrary: cs log)
     (auto simp: cache_add_def map_of_cache_put split: sum.splits if_splits)

lemma add_each_log_grows: "set log \<subseteq> set (snd (add_each p us cs log))"
proof (induction us arbitrary: cs log)
  case Nil
  then show ?case by simp
next
  case (Cons u us)
  show ?case
  proof (cases "cache_add p CACHE_NAME u cs")
    case (Inl err)
    have "set log \<subseteq> set (log @ [failed_to_cache u])" by auto
    also have "\<dots> \<subseteq> set (snd (add_each p us cs (log @ [failed_to_cache u])))"
      by (rule Cons.IH)
    finally show ?thesis using Inl by simp
  next
    case (Inr cs')
    with Cons.IH [of log cs'] show ?thesis by simp
  qed
qed

lemma add_each_keeps:
  "entry cs CACHE_NAME (origin p @ u) = Some r \<Longrightarrow> net p (request_of p u) = Inr r \<Longrightarrow>
   entry (fst (add_each p us cs log)) CACHE_NAME (origin p @ u) = Some r"
proof (induction us arbitrary: cs log)
  case Nil
  then show ?case by simp
next
  case (Cons v vs)
  show ?case
  proof (cases "cache_add p CACHE_NAME v cs")
    case (Inl err)
    with Cons show ?thesis by simp
  next
    case (Inr cs')
    then obtain r' where r': "net p (request_of p v) = Inr r'"
      and cs': "cs' = cache_put CACHE_NAME (origin p @ v) r' cs"
      by (auto simp: cache_add_def split: sum.splits if_splits)
    have "entry cs' CACHE_NAME (origin p @ u) = Some r"
    proof (cases "v = u")
      case True
      with r' Cons.prems have "r' = r" by simp
      with Cons.prems cs' show ?thesis by (simp add: entry_cache_put)
    next
      case False
      with Cons.prems cs' show ?thesis by (simp add: entry_cache_put)
    qed
    from Cons.IH [OF this Cons.prems(2)] Inr show ?thesis by simp
  qed
qed

lemma add_each_stores:
  "u \<in> set us \<Longrightarrow> map_of cs CACHE_NAME \<noteq> None \<Longrightarrow>
   net p (request_of p u) = Inr r \<Longrightarrow> add_accepts r \<Longrightarrow>
   entry (fst (add_each p us cs log)) CACHE_NAME (origin p @ u) = Some r"
proof (induction us arbitrary: cs log)
  case Nil
  then show ?case by simp
next
  case (Cons v vs)
  show ?case
  proof (cases "v = u")
    case True
    with Cons.prems have step: "cache_add p CACHE_NAME v cs
        = Inr (cache_put CACHE_NAME (origin p @ u) r cs)"
      by (simp add: cache_add_def)
    from Cons.prems have "entry (cache_put CACHE_NAME (origin p @ u) r cs) CACHE_NAME (origin p @ u) = Some r"
      by (simp add: entry_cache_put)
    from add_each_keeps [OF this Cons.prems(3)] step show ?thesis by simp
  next
    case False
    with Cons.prems have mem: "u \<in> set vs" by simp
    show ?thesis
    proof (cases "cache_add p CACHE_NAME v cs")
      case (Inl err)
      with Cons.IH [OF mem Cons.prems(2,3,4)] show ?thesis by simp
    next
      case (Inr cs')
      then have "map_of cs' CACHE_NAME \<noteq> None"
        using Cons.prems(2)
        by (auto simp: cache_add_def map_of_cache_put split: sum.splits if_splits)
      from Cons.IH [OF mem this Cons.prems(3,4)] Inr show ?thesis by simp
    qed
  qed
qed

lemma add_each_warns:
  "u \<in> set us \<Longrightarrow> unreachable p u \<Longrightarrow>
   failed_to_cache u \<in> set (snd (add_each p us cs log))"
proof (induction us arbitrary: cs log)
  case Nil
  then show ?case by simp
next
  case (Cons v vs)
  show ?case
  proof (cases "v = u")
    case True
    with Cons.prems obtain err where step: "cache_add p CACHE_NAME v cs = Inl err"
      by (auto simp: cache_add_def unreachable_def split: sum.splits)
    have "failed_to_cache u \<in> set (log @ [failed_to_cache u])"
      by simp
    with add_each_log_grows [of "log @ [failed_to_cache u]" p vs cs]
    have "failed_to_cache u
            \<in> set (snd (add_each p vs cs (log @ [failed_to_cache u])))"
      by blast
    with step True show ?thesis by simp
  next
    case False
    with Cons.prems have mem: "u \<in> set vs" by simp
    show ?thesis
      using Cons.IH [OF mem Cons.prems(2)]
      by (cases "cache_add p CACHE_NAME v cs") simp_all
  qed
qed

lemma add_each_skips:
  "unreachable p u \<Longrightarrow>
   entry (fst (add_each p us cs log)) CACHE_NAME (origin p @ u) = entry cs CACHE_NAME (origin p @ u)"
proof (induction us arbitrary: cs log)
  case Nil
  then show ?case by simp
next
  case (Cons v vs)
  show ?case
  proof (cases "cache_add p CACHE_NAME v cs")
    case (Inl err)
    with Cons show ?thesis by simp
  next
    case (Inr cs')
    then obtain r' where r': "net p (request_of p v) = Inr r'" "add_accepts r'"
      and cs': "cs' = cache_put CACHE_NAME (origin p @ v) r' cs"
      by (auto simp: cache_add_def split: sum.splits if_splits)
    with Cons.prems have "v \<noteq> u" by (auto simp: unreachable_def)
    with cs' have "entry cs' CACHE_NAME (origin p @ u) = entry cs CACHE_NAME (origin p @ u)"
      by (simp add: entry_cache_put)
    with Cons.IH [OF Cons.prems, of cs' log] Inr show ?thesis by simp
  qed
qed

subsection \<open>The fetch listeners on a cache hit\<close>

text \<open>
  Claim C1. A same-origin \<open>GET\<close> request for which \<open>caches.match\<close> finds an entry of
  the Cache Store is answered with that entry, and the listener sends nothing to the
  network. In \<^verbatim>\<open>src/sw.js\<close> a request is intercepted when its URL starts with \<open>http\<close>
  and with the origin; in \<^verbatim>\<open>part_000\<close> when it starts with the origin.
\<close>

theorem fetch_hit_served_from_cache:
  assumes "prefix (origin p) (url req)" and "req_method req = ''GET''"
    and "caches_match cs req = Some r"
  shows "(prefix ''http'' (url req) \<longrightarrow>
            result (sw_fetch p cs req) = Responded r \<and> fetched (sw_fetch p cs req) = [])
       \<and> result (p0_fetch p cs req) = Responded r \<and> fetched (p0_fetch p cs req) = []"
  using assms by (simp add: sw_fetch_def p0_fetch_def)

theorem fetch_hit_served_from_cache_witness:
  "result (sw_fetch offline_platform warm_store page_request) = Responded page
   \<and> fetched (sw_fetch offline_platform warm_store page_request) = []
   \<and> result (p0_fetch offline_platform warm_store page_request) = Responded page
   \<and> fetched (p0_fetch offline_platform warm_store page_request) = []"
  using fetch_hit_served_from_cache [of offline_platform page_request warm_store page]
  by (simp add: offline_platform_def page_request_def warm_store_def caches_match_def
      page_def header_get_def)

text \<open>
  Claim C9. An intercepted request served from a cache hit leaves the whole storage as
  it was.
\<close>

theorem fetch_hit_leaves_storage:
  assumes "prefix (origin p) (url req)" and "caches_match cs req = Some r"
  shows "(prefix ''http'' (url req) \<longrightarrow> store (sw_fetch p cs req) = cs)
       \<and> store (p0_fetch p cs req) = cs"
  using assms by (simp add: sw_fetch_def p0_fetch_def)

theorem fetch_hit_leaves_storage_witness:
  "store (sw_fetch offline_platform warm_store page_request) = warm_store
   \<and> store (p0_fetch offline_platform warm_store page_request) = warm_store"
  using fetch_hit_leaves_storage [of offline_platform page_request warm_store page]
  by (simp add: offline_platform_def page_request_def warm_store_def caches_match_def
      page_def header_get_def)

subsection \<open>What the fetch listeners store\<close>

text \<open>
  Claim C2. Whatever the request, a fetch listener changes an entry of the storage only
  when the network answered with status 200 and type \<open>basic\<close> and the request's method
  is \<open>GET\<close>; the entry is then the one of the request's URL in the current cache, and
  it holds that response. An intercepted request without a cache hit whose network
  response fails one of the three conditions is answered with that response, and no
  entry changes. (\<^verbatim>\<open>src/sw.js\<close> tests the method itself; in \<^verbatim>\<open>part_000\<close> it is
  \<open>cache.put\<close> that rejects a request that is not a \<open>GET\<close>.)
\<close>

theorem fetch_stores_only_good:
  "(entry (store (sw_fetch p cs req)) n k \<noteq> entry cs n k \<longrightarrow>
      (\<exists>r. net p req = Inr r \<and> status r = 200 \<and> rtype r = ''basic''
           \<and> req_method req = ''GET'' \<and> result (sw_fetch p cs req) = Responded r
           \<and> n = CACHE_NAME \<and> k = url req
           \<and> entry (store (sw_fetch p cs req)) n k = Some r))
 \<and> (entry (store (p0_fetch p cs req)) n k \<noteq> entry cs n k \<longrightarrow>
      (\<exists>r. net p req = Inr r \<and> status r = 200 \<and> rtype r = ''basic''
           \<and> req_method req = ''GET'' \<and> result (p0_fetch p cs req) = Responded r
           \<and> n = CACHE_NAME_p0 \<and> k = url req
           \<and> entry (store (p0_fetch p cs req)) n k = Some r))
 \<and> (prefix ''http'' (url req) \<and> prefix (origin p) (url req) \<and> caches_match cs req = None
      \<and> net p req = Inr r'
      \<and> \<not> (status r' = 200 \<and> rtype r' = ''basic'' \<and> req_method req = ''GET'') \<longrightarrow>
      result (sw_fetch p cs req) = Responded r'
      \<and> (\<forall>m j. entry (store (sw_fetch p cs req)) m j = entry cs m j))
 \<and> (prefix (origin p) (url req) \<and> caches_match cs req = None
      \<and> net p req = Inr r'
      \<and> \<not> (status r' = 200 \<and> rtype r' = ''basic'' \<and> req_method req = ''GET'') \<longrightarrow>
      result (p0_fetch p cs req) = Responded r'
      \<and> (\<forall>m j. entry (store (p0_fetch p cs req)) m j = entry cs m j))"
proof -
  have sw: "entry (store (sw_fetch p cs req)) n k \<noteq> entry cs n k \<longrightarrow>
      (\<exists>r. net p req = Inr r \<and> status r = 200 \<and> rtype r = ''basic''
           \<and> req_method req = ''GET'' \<and> result (sw_fetch p cs req) = Responded r
           \<and> n = CACHE_NAME \<and> k = url req
           \<and> entry (store (sw_fetch p cs req)) n k = Some r)"
    by (auto simp: sw_fetch_def Let_def entry_caches_open entry_cache_put put_unawaited_def
        cache_put_request_def split: if_splits option.splits sum.splits)
  have p0: "entry (store (p0_fetch p cs req)) n k \<noteq> entry cs n k \<longrightarrow>
      (\<exists>r. net p req = Inr r \<and> status r = 200 \<and> rtype r = ''basic''
           \<and> req_method req = ''GET'' \<and> result (p0_fetch p cs req) = Responded r
           \<and> n = CACHE_NAME_p0 \<and> k = url req
           \<and> entry (store (p0_fetch p cs req)) n k = Some r)"
    by (auto simp: p0_fetch_def Let_def entry_caches_open entry_cache_put put_unawaited_def
        cache_put_request_def split: if_splits option.splits sum.splits)
  have sw2: "prefix ''http'' (url req) \<and> prefix (origin p) (url req) \<and> caches_match cs req = None
      \<and> net p req = Inr r'
      \<and> \<not> (status r' = 200 \<and> rtype r' = ''basic'' \<and> req_method req = ''GET'') \<longrightarrow>
      result (sw_fetch p cs req) = Responded r'
      \<and> (\<forall>m j. entry (store (sw_fetch p cs req)) m j = entry cs m j)"
    by (auto simp: sw_fetch_def Let_def entry_caches_open)
  have p02: "prefix (origin p) (url req) \<and> caches_match cs req = None
      \<and> net p req = Inr r'
      \<and> \<not> (status r' = 200 \<and> rtype r' = ''basic'' \<and> req_method req = ''GET'') \<longrightarrow>
      result (p0_fetch p cs req) = Responded r'
      \<and> (\<forall>m j. entry (store (p0_fetch p cs req)) m j = entry cs m j)"
    by (auto simp: p0_fetch_def Let_def entry_caches_open put_unawaited_def cache_put_request_def)
  from sw p0 sw2 p02 show ?thesis by blast
qed

theorem fetch_stores_only_good_witness:
  "entry (store (sw_fetch online_platform [] page_request)) CACHE_NAME
     ''https://app.example/index.html'' = Some page
 \<and> entry (store (p0_fetch online_platform [] page_request)) CACHE_NAME_p0
     ''https://app.example/index.html'' = Some page
 \<and> result (sw_fetch online_platform [] post_request) = Responded page
 \<and> entry (store (sw_fetch online_platform [] post_request)) CACHE_NAME
     ''https://app.example/api/report'' = None
 \<and> result (p0_fetch online_platform [] post_request) = Responded page
 \<and> entry (store (p0_fetch online_platform [] post_request)) CACHE_NAME_p0
     ''https://app.example/api/report'' = None"
proof -
  let ?k = "''https://app.example/index.html''"
  let ?j = "''https://app.example/api/report''"
  have sw_changed:
    "entry (store (sw_fetch online_platform [] page_request)) CACHE_NAME ?k
       \<noteq> entry [] CACHE_NAME ?k"
    by (simp add: sw_fetch_def online_platform_def page_request_def caches_match_def page_def
        put_unawaited_def cache_put_request_def vary_star_def header_get_def caches_open_def
        cache_put_def entry_def)
  have p0_changed:
    "entry (store (p0_fetch online_platform [] page_request)) CACHE_NAME_p0 ?k
       \<noteq> entry [] CACHE_NAME_p0 ?k"
    by (simp add: p0_fetch_def online_platform_def page_request_def caches_match_def page_def
        put_unawaited_def cache_put_request_def vary_star_def header_get_def caches_open_def
        cache_put_def entry_def)
  have net_page: "net online_platform page_request = Inr page"
    by (simp add: online_platform_def page_request_def)
  have post_sw: "prefix ''http'' (url post_request) \<and> prefix (origin online_platform) (url post_request)
      \<and> caches_match [] post_request = None \<and> net online_platform post_request = Inr page
      \<and> \<not> (status page = 200 \<and> rtype page = ''basic'' \<and> req_method post_request = ''GET'')"
    by (simp add: online_platform_def post_request_def caches_match_def)
  then have post_p0: "prefix (origin online_platform) (url post_request)
      \<and> caches_match [] post_request = None \<and> net online_platform post_request = Inr page
      \<and> \<not> (status page = 200 \<and> rtype page = ''basic'' \<and> req_method post_request = ''GET'')"
    by blast
  have none: "entry [] CACHE_NAME ?j = None" "entry [] CACHE_NAME_p0 ?j = None"
    by (simp_all add: entry_def)
  note at_page = fetch_stores_only_good [of online_platform "[]" page_request CACHE_NAME ?k page]
  note at_page_p0 = fetch_stores_only_good [of online_platform "[]" page_request CACHE_NAME_p0 ?k page]
  note at_post = fetch_stores_only_good [of online_platform "[]" post_request CACHE_NAME ?j page]
  from at_page sw_changed obtain r where
    r: "net online_platform page_request = Inr r"
       "entry (store (sw_fetch online_platform [] page_request)) CACHE_NAME ?k = Some r"
    by blast
  from at_page_p0 p0_changed obtain r' where
    r': "net online_platform page_request = Inr r'"
       "entry (store (p0_fetch online_platform [] page_request)) CACHE_NAME_p0 ?k = Some r'"
    by blast
  from r net_page have a: "entry (store (sw_fetch online_platform [] page_request)) CACHE_NAME ?k = Some page"
    by simp
  from r' net_page have b: "entry (store (p0_fetch online_platform [] page_request)) CACHE_NAME_p0 ?k = Some page"
    by simp
  from at_post post_sw have c: "result (sw_fetch online_platform [] post_request) = Responded page
      \<and> (\<forall>m j. entry (store (sw_fetch online_platform [] post_request)) m j = entry [] m j)"
    by blast
  from at_post post_p0 have d: "result (p0_fetch online_platform [] post_request) = Responded page
      \<and> (\<forall>m j. entry (store (p0_fetch online_platform [] post_request)) m j = entry [] m j)"
    by blast
  from a b c d none show ?thesis by simp
qed

subsection \<open>The fetch listeners when the network fails\<close>

text \<open>
  Claim C10. In \<^verbatim>\<open>src/sw.js\<close>, an intercepted request with no \<open>accept\<close> header, no cache
  hit and a failing fetch: the listener's promise rejects with the error of the fetch
  itself (no other exception is raised), the storage is as it was, and the one network
  request is the only one sent.
\<close>

theorem sw_fetch_without_accept_header:
  assumes "prefix ''http'' (url req)" and "prefix (origin p) (url req)"
    and "caches_match cs req = None" and "net p req = Inl e"
    and "header_get (req_headers req) ''accept'' = None"
  shows "sw_fetch p cs req =
           \<lparr>result = Failed e, store = cs, fetched = [req], console = []\<rparr>"
  using assms by (simp add: sw_fetch_def accepts_html_def)

theorem sw_fetch_without_accept_header_witness:
  "sw_fetch offline_platform [] bare_request =
     \<lparr>result = Failed (NetworkError ''Failed to fetch''), store = [],
      fetched = [bare_request], console = []\<rparr>"
  using sw_fetch_without_accept_header
          [of bare_request offline_platform "[]" "NetworkError ''Failed to fetch''"]
  by (simp add: offline_platform_def bare_request_def caches_match_def header_get_def)

text \<open>
  Claim C7. In \<^verbatim>\<open>part_000\<close> the \<open>catch\<close> callback of the fetch has a branch for HTML
  requests only. For an intercepted request without a cache hit whose fetch fails: with
  an \<open>accept\<close> header that does not include \<open>text/html\<close> the callback falls off its end
  and the listener's promise resolves with no response; with no \<open>accept\<close> header the
  callback throws a \<open>TypeError\<close> of its own. In neither case is the error of the fetch
  what the caller receives.
\<close>

theorem p0_fetch_failure_not_propagated:
  assumes "prefix (origin p) (url req)" and "caches_match cs req = None"
    and "net p req = Inl e"
  shows "(header_get (req_headers req) ''accept'' = Some a \<and> \<not> str_includes a ''text/html'' \<longrightarrow>
            p0_fetch p cs req =
              \<lparr>result = RespondedAbsent, store = cs, fetched = [req], console = []\<rparr>)
       \<and> (header_get (req_headers req) ''accept'' = None \<longrightarrow>
            p0_fetch p cs req =
              \<lparr>result = Failed (TypeError ''Cannot read properties of null''), store = cs,
               fetched = [req], console = []\<rparr>)"
  using assms by (simp add: p0_fetch_def)

theorem p0_fetch_failure_not_propagated_witness:
  "p0_fetch offline_platform [] api_request =
     \<lparr>result = RespondedAbsent, store = [], fetched = [api_request], console = []\<rparr>
 \<and> p0_fetch offline_platform [] bare_request =
     \<lparr>result = Failed (TypeError ''Cannot read properties of null''), store = [],
      fetched = [bare_request], console = []\<rparr>"
proof -
  have a: "prefix (origin offline_platform) (url api_request)"
    "prefix (origin offline_platform) (url bare_request)"
    by (simp_all add: offline_platform_def api_request_def bare_request_def)
  have b: "caches_match [] api_request = None" "caches_match [] bare_request = None"
    by (simp_all add: caches_match_def)
  have c: "net offline_platform api_request = Inl (NetworkError ''Failed to fetch'')"
    "net offline_platform bare_request = Inl (NetworkError ''Failed to fetch'')"
    by (simp_all add: offline_platform_def)
  have d: "header_get (req_headers api_request) ''accept'' = Some ''application/json''
             \<and> \<not> str_includes ''application/json'' ''text/html''"
    by (simp add: header_get_def api_request_def)
  have e: "header_get (req_headers bare_request) ''accept'' = None"
    by (simp add: header_get_def bare_request_def)
  from p0_fetch_failure_not_propagated [OF a(1) b(1) c(1), of "''application/json''"] p0_fetch_failure_not_propagated [OF a(2) b(2) c(2)] d e
  show ?thesis by blast
qed

text \<open>
  \<^verbatim>\<open>src/sw.js\<close> on the same requests: whenever the \<open>accept\<close> header is absent or does not
  include \<open>text/html\<close>, the listener's promise rejects with the error of the fetch, and
  the storage is as it was.
\<close>

theorem sw_fetch_failure_propagated:
  assumes "prefix ''http'' (url req)" and "prefix (origin p) (url req)"
    and "caches_match cs req = None" and "net p req = Inl e" and "\<not> accepts_html req"
  shows "sw_fetch p cs req =
           \<lparr>result = Failed e, store = cs, fetched = [req], console = []\<rparr>"
  using assms by (simp add: sw_fetch_def)

theorem sw_fetch_failure_propagated_witness:
  "sw_fetch offline_platform [] api_request =
     \<lparr>result = Failed (NetworkError ''Failed to fetch''), store = [],
      fetched = [api_request], console = []\<rparr>"
proof -
  have a: "prefix ''http'' (url api_request)" "prefix (origin offline_platform) (url api_request)"
    by (simp_all add: offline_platform_def api_request_def)
  have b: "caches_match [] api_request = None"
    by (simp add: caches_match_def)
  have c: "net offline_platform api_request = Inl (NetworkError ''Failed to fetch'')"
    by (simp add: offline_platform_def)
  have d: "\<not> accepts_html api_request"
    by (simp add: accepts_html_def header_get_def api_request_def)
  from sw_fetch_failure_propagated [OF a b c d] show ?thesis .
qed

text \<open>
  Claim C3. In \<^verbatim>\<open>part_000\<close>, an intercepted HTML request without a cache hit whose fetch
  fails is answered with \<open>caches.match(OFFLINE_URL)\<close>: when no cache holds
  \<open>/assets/offline.html\<close> the listener's promise resolves with no response (no page is
  synthesised).
\<close>

theorem p0_fetch_html_without_fallback:
  assumes "prefix (origin p) (url req)" and "caches_match cs req = None"
    and "net p req = Inl e"
    and "header_get (req_headers req) ''accept'' = Some a" and "str_includes a ''text/html''"
    and "match_url cs (origin p @ OFFLINE_URL_p0) = None"
  shows "p0_fetch p cs req =
           \<lparr>result = RespondedAbsent, store = cs, fetched = [req], console = []\<rparr>"
  using assms by (simp add: p0_fetch_def)

theorem p0_fetch_html_without_fallback_witness:
  "p0_fetch offline_platform [] page_request =
     \<lparr>result = RespondedAbsent, store = [], fetched = [page_request], console = []\<rparr>"
proof -
  have a: "prefix (origin offline_platform) (url page_request)"
    by (simp add: offline_platform_def page_request_def)
  have b: "caches_match [] page_request = None"
    by (simp add: caches_match_def)
  have c: "net offline_platform page_request = Inl (NetworkError ''Failed to fetch'')"
    by (simp add: offline_platform_def)
  have d: "header_get (req_headers page_request) ''accept'' = Some ''text/html,application/xhtml+xml''"
    by (simp add: header_get_def page_request_def)
  have e: "str_includes ''text/html,application/xhtml+xml'' ''text/html''"
    by simp
  have f: "match_url [] (origin offline_platform @ OFFLINE_URL_p0) = None"
    by simp
  from p0_fetch_html_without_fallback [OF a b c d e f] show ?thesis .
qed

text \<open>
  \<^verbatim>\<open>src/sw.js\<close> on the same requests: the answer is the cached \<open>/offline.html\<close> when
  some cache holds it (as it was stored), and otherwise the inline page, whose
  \<open>content-type\<close> is \<open>text/html\<close>; the promise never rejects and never resolves with no
  response.
\<close>

theorem sw_fetch_html_fallback:
  assumes "prefix ''http'' (url req)" and "prefix (origin p) (url req)"
    and "caches_match cs req = None" and "net p req = Inl e" and "accepts_html req"
  shows "sw_fetch p cs req =
           \<lparr>result = Responded (case match_url cs (origin p @ OFFLINE_URL) of
                                   Some offlineResponse \<Rightarrow> offlineResponse
                                 | None \<Rightarrow> inline_offline_page),
            store = cs, fetched = [req], console = []\<rparr>
       \<and> header_get (headers inline_offline_page) ''content-type'' = Some ''text/html''"
  using assms
  by (simp add: sw_fetch_def inline_offline_page_def new_Response_def header_get_def
      split: option.splits)

theorem sw_fetch_html_fallback_witness:
  "result (sw_fetch offline_platform [] page_request) = Responded inline_offline_page
 \<and> result (sw_fetch offline_platform fallback_store page_request) = Responded page"
proof -
  have a: "prefix ''http'' (url page_request)" "prefix (origin offline_platform) (url page_request)"
    by (simp_all add: offline_platform_def page_request_def)
  have b: "caches_match [] page_request = None" "caches_match fallback_store page_request = None"
    by (simp_all add: caches_match_def fallback_store_def page_request_def)
  have c: "net offline_platform page_request = Inl (NetworkError ''Failed to fetch'')"
    by (simp add: offline_platform_def)
  have d: "accepts_html page_request"
    by (simp add: accepts_html_def header_get_def page_request_def)
  have m: "match_url [] (origin offline_platform @ OFFLINE_URL) = None"
    "match_url fallback_store (origin offline_platform @ OFFLINE_URL) = Some page"
    by (simp_all add: fallback_store_def offline_platform_def OFFLINE_URL_def)
  from sw_fetch_html_fallback [OF a(1) a(2) b(1) c d] sw_fetch_html_fallback [OF a(1) a(2) b(2) c d] m
  show ?thesis by simp
qed

subsection \<open>Activation\<close>

text \<open>
  Claim C6. After the activate listener the set of cache versions holds the current
  name and no other: every other version has been deleted, whatever versions there
  were. The current cache exists at activation because the install listener opened it,
  so after install and activate the set of versions is exactly the current one; with
  distinct names to start with the list of versions is that single name. The current
  cache keeps its entries.
\<close>

theorem activate_keeps_current_only:
  "set (caches_keys (store (sw_activate cs))) = set (caches_keys cs) \<inter> {CACHE_NAME}
 \<and> set (caches_keys (store (p0_activate cs))) = set (caches_keys cs) \<inter> {CACHE_NAME_p0}
 \<and> set (caches_keys (store (sw_activate (store (sw_install_with p urls cs))))) = {CACHE_NAME}
 \<and> set (caches_keys (store (p0_activate (store (p0_install_with p urls cs))))) = {CACHE_NAME_p0}
 \<and> (distinct (caches_keys cs) \<longrightarrow>
      caches_keys (store (sw_activate (store (sw_install_with p urls cs)))) = [CACHE_NAME]
    \<and> caches_keys (store (p0_activate (store (p0_install_with p urls cs)))) = [CACHE_NAME_p0])
 \<and> entry (store (sw_activate cs)) CACHE_NAME k = entry cs CACHE_NAME k
 \<and> entry (store (p0_activate cs)) CACHE_NAME_p0 k = entry cs CACHE_NAME_p0 k"
proof -
  have a: "set (caches_keys (store (sw_activate cs))) = set (caches_keys cs) \<inter> {CACHE_NAME}"
    by (simp add: sw_activate_store keys_filter_current)
  have b: "set (caches_keys (store (p0_activate cs))) = set (caches_keys cs) \<inter> {CACHE_NAME_p0}"
    by (simp add: p0_activate_store keys_filter_current)
  have c: "set (caches_keys (store (sw_activate (store (sw_install_with p urls cs))))) = {CACHE_NAME}"
    by (auto simp: sw_activate_store keys_filter_current sw_install_keys caches_keys_caches_open)
  have d: "set (caches_keys (store (p0_activate (store (p0_install_with p urls cs))))) = {CACHE_NAME_p0}"
    by (auto simp: p0_activate_store keys_filter_current p0_install_keys caches_keys_caches_open)
  have e: "caches_keys (store (sw_activate (store (sw_install_with p urls cs)))) = [CACHE_NAME]"
    if "distinct (caches_keys cs)"
  proof -
    have "distinct (caches_keys (store (sw_install_with p urls cs)))"
      and "CACHE_NAME \<in> set (caches_keys (store (sw_install_with p urls cs)))"
      using that by (auto simp: sw_install_keys caches_keys_caches_open)
    then show ?thesis by (simp add: sw_activate_store keys_filter_distinct)
  qed
  have f: "caches_keys (store (p0_activate (store (p0_install_with p urls cs)))) = [CACHE_NAME_p0]"
    if "distinct (caches_keys cs)"
  proof -
    have "distinct (caches_keys (store (p0_install_with p urls cs)))"
      and "CACHE_NAME_p0 \<in> set (caches_keys (store (p0_install_with p urls cs)))"
      using that by (auto simp: p0_install_keys caches_keys_caches_open)
    then show ?thesis by (simp add: p0_activate_store keys_filter_distinct)
  qed
  have g: "entry (store (sw_activate cs)) CACHE_NAME k = entry cs CACHE_NAME k"
    by (simp add: sw_activate_store entry_filter_current)
  have h: "entry (store (p0_activate cs)) CACHE_NAME_p0 k = entry cs CACHE_NAME_p0 k"
    by (simp add: p0_activate_store entry_filter_current)
  from a b c d e f g h show ?thesis by blast
qed

theorem activate_keeps_current_only_witness:
  "caches_keys old_store = [CACHE_NAME_p0, ''images'']
 \<and> caches_keys (store (sw_activate (store (sw_install offline_platform old_store)))) = [CACHE_NAME]
 \<and> caches_keys (store (p0_activate (store (p0_install offline_platform old_store)))) = [CACHE_NAME_p0]"
  using activate_keeps_current_only [of old_store offline_platform STATIC_CACHE_URLS]
    activate_keeps_current_only [of old_store offline_platform urlsToCache]
  by (simp add: sw_install_def p0_install_def old_store_def caches_keys_def CACHE_NAME_p0_def)

subsection \<open>Installation\<close>

text \<open>
  Claim C5. In \<^verbatim>\<open>part_000\<close> the install listener calls \<open>cache.addAll\<close> once: when one
  asset of the list is unreachable the install is aborted (the worker is discarded), and
  no asset is stored, the reachable ones included.
\<close>

theorem p0_install_aborts_on_failed_asset:
  assumes "u \<in> set urls" and "unreachable p u"
  shows "result (p0_install_with p urls cs) = Redundant
       \<and> (\<forall>n k. entry (store (p0_install_with p urls cs)) n k = entry cs n k)"
proof -
  from fetch_all_fails [OF assms] obtain e where "fetch_all p urls = Inl e" ..
  then show ?thesis
    by (simp add: p0_install_with_def Let_def cache_addAll_def entry_caches_open)
qed

theorem p0_install_aborts_on_failed_asset_witness:
  "result (p0_install online_platform []) = Redundant
 \<and> entry (store (p0_install online_platform [])) CACHE_NAME_p0 ''https://app.example/index.html'' = None"
proof -
  have a: "''/icons/icon-512.png'' \<in> set urlsToCache"
    by (simp add: urlsToCache_def)
  have b: "unreachable online_platform ''/icons/icon-512.png''"
    by (simp add: unreachable_def online_platform_def request_of_def)
  from p0_install_aborts_on_failed_asset [OF a b, of "[]"] show ?thesis
    by (simp add: p0_install_def entry_def)
qed

text \<open>
  \<^verbatim>\<open>src/sw.js\<close>, for every list of assets: the install always reaches \<open>Installed\<close>;
  every asset of the list that is fetched with a response \<open>cache.add\<close> accepts is in the
  current cache afterwards; an unreachable asset is warned about and its entry is left
  as it was.
\<close>

theorem sw_install_skips_failed_assets:
  "result (sw_install_with p urls cs) = Installed
 \<and> (u \<in> set urls \<and> net p (request_of p u) = Inr r \<and> add_accepts r \<longrightarrow>
      entry (store (sw_install_with p urls cs)) CACHE_NAME (origin p @ u) = Some r)
 \<and> (u \<in> set urls \<and> unreachable p u \<longrightarrow>
      failed_to_cache u \<in> set (console (sw_install_with p urls cs))
      \<and> entry (store (sw_install_with p urls cs)) CACHE_NAME (origin p @ u)
          = entry cs CACHE_NAME (origin p @ u))"
  by (simp add: sw_install_with_def Let_def add_each_stores add_each_warns add_each_skips
      map_of_caches_open_self entry_caches_open)

theorem sw_install_skips_failed_assets_witness:
  "result (sw_install_with online_platform urlsToCache []) = Installed
 \<and> entry (store (sw_install_with online_platform urlsToCache [])) CACHE_NAME
     ''https://app.example/index.html'' = Some page
 \<and> entry (store (sw_install_with online_platform urlsToCache [])) CACHE_NAME
     ''https://app.example/icons/icon-512.png'' = None
 \<and> failed_to_cache ''/icons/icon-512.png'' \<in> set (console (sw_install_with online_platform urlsToCache []))"
proof -
  have a: "''/icons/icon-512.png'' \<in> set urlsToCache" "''/index.html'' \<in> set urlsToCache"
    by (simp_all add: urlsToCache_def)
  have b: "unreachable online_platform ''/icons/icon-512.png''"
    by (simp add: unreachable_def online_platform_def request_of_def)
  have c: "net online_platform (request_of online_platform ''/index.html'') = Inr page"
    "add_accepts page"
    by (simp_all add: online_platform_def request_of_def add_accepts_def response_ok_def
        vary_star_def header_get_def page_def)
  have o: "origin online_platform = ''https://app.example''"
    by (simp add: online_platform_def)
  from sw_install_skips_failed_assets [of online_platform urlsToCache "[]" "''/index.html''" page]
       sw_install_skips_failed_assets [of online_platform urlsToCache "[]" "''/icons/icon-512.png''" page] a b c
  show ?thesis by (simp add: o entry_def)
qed

subsection \<open>Synchronisation\<close>




text \<open>
  Claim C4. In \<^verbatim>\<open>part_000\<close>, when the queued entry cannot be read as JSON the flush
  fails, the entry stays as it was, and the failure is logged but not signalled:
  \<open>syncQueuedData\<close> resolves, and so does the promise the sync listener waits for.
\<close>

theorem syncQueuedData_swallows_failure:
  assumes "entry cs CACHE_NAME_p0 (origin p @ ''/queued-data'') = Some r"
    and "response_json p r = Inl e"
  shows "p0_sync p ''background-sync'' cs =
           \<lparr>result = Resolved, store = cs, fetched = [], console = [''[SW] Sync failed:'']\<rparr>"
  using assms
  by (simp add: p0_sync_def syncQueuedData_def Let_def entry_caches_open entry_present_open)

theorem syncQueuedData_swallows_failure_witness:
  "entry broken_store_p0 CACHE_NAME_p0 ''https://app.example/queued-data'' = Some (new_Response NoBody [])
 \<and> response_json offline_platform (new_Response NoBody []) = Inl (SyntaxError ''Unexpected end of JSON input'')
 \<and> p0_sync offline_platform ''background-sync'' broken_store_p0 =
      \<lparr>result = Resolved, store = broken_store_p0, fetched = [],
       console = [''[SW] Sync failed:'']\<rparr>"
proof -
  have a: "entry broken_store_p0 CACHE_NAME_p0 (origin offline_platform @ ''/queued-data'') = Some (new_Response NoBody [])"
    by (simp add: broken_store_p0_def entry_def offline_platform_def)
  have b: "response_json offline_platform (new_Response NoBody []) = Inl (SyntaxError ''Unexpected end of JSON input'')"
    by (simp add: response_json_def new_Response_def)
  from syncQueuedData_swallows_failure [OF a b] a b show ?thesis by (simp add: offline_platform_def)
qed

text \<open>
  \<^verbatim>\<open>src/sw.js\<close>, for both of its reserved keys: after a flush that resolves the entry
  is absent; a flush that rejects leaves the whole storage as it was, the entry present,
  and rejects with the error of reading it; and a failure to read the entry always
  rejects. An item written by a \<open>CACHE_EMERGENCY_DATA\<close> message whose payload is JSON
  text is flushed and absent afterwards.
\<close>

theorem sw_sync_flush:
  "(result (sw_sync p ''emergency-data-sync'' cs) = Resolved \<longrightarrow>
      entry (store (sw_sync p ''emergency-data-sync'' cs)) CACHE_NAME
        (origin p @ ''/emergency-data.json'') = None)
 \<and> (result (sw_sync p ''emergency-data-sync'' cs) = Rejected e \<longrightarrow>
      store (sw_sync p ''emergency-data-sync'' cs) = cs
      \<and> (\<exists>r. entry cs CACHE_NAME (origin p @ ''/emergency-data.json'') = Some r
             \<and> response_json p r = Inl e))
 \<and> (entry cs CACHE_NAME (origin p @ ''/emergency-data.json'') = Some r
      \<and> response_json p r = Inl e \<longrightarrow>
      result (sw_sync p ''emergency-data-sync'' cs) = Rejected e)
 \<and> (result (sw_sync p ''student-scans-sync'' cs) = Resolved \<longrightarrow>
      entry (store (sw_sync p ''student-scans-sync'' cs)) CACHE_NAME
        (origin p @ ''/student-scans.json'') = None)
 \<and> (result (sw_sync p ''student-scans-sync'' cs) = Rejected e \<longrightarrow>
      store (sw_sync p ''student-scans-sync'' cs) = cs
      \<and> (\<exists>r. entry cs CACHE_NAME (origin p @ ''/student-scans.json'') = Some r
             \<and> response_json p r = Inl e))
 \<and> (entry cs CACHE_NAME (origin p @ ''/student-scans.json'') = Some r
      \<and> response_json p r = Inl e \<longrightarrow>
      result (sw_sync p ''student-scans-sync'' cs) = Rejected e)
 \<and> (json_ok p s \<longrightarrow>
      result (sw_sync p ''emergency-data-sync''
                (sw_message p (CACHE_EMERGENCY_DATA (JsonText s)) cs)) = Resolved
      \<and> entry (store (sw_sync p ''emergency-data-sync''
                (sw_message p (CACHE_EMERGENCY_DATA (JsonText s)) cs))) CACHE_NAME
          (origin p @ ''/emergency-data.json'') = None)"
proof -
  have a: "result (sw_sync p ''emergency-data-sync'' cs) = Resolved \<longrightarrow>
      entry (store (sw_sync p ''emergency-data-sync'' cs)) CACHE_NAME
        (origin p @ ''/emergency-data.json'') = None"
    by (simp add: sw_sync_def syncEmergencyData_entry)
  have b: "result (sw_sync p ''emergency-data-sync'' cs) = Rejected e \<longrightarrow>
      store (sw_sync p ''emergency-data-sync'' cs) = cs
      \<and> (\<exists>r. entry cs CACHE_NAME (origin p @ ''/emergency-data.json'') = Some r
             \<and> response_json p r = Inl e)"
    by (auto simp: sw_sync_def syncEmergencyData_rejected syncEmergencyData_result
        split: option.splits sum.splits)
  have c: "entry cs CACHE_NAME (origin p @ ''/emergency-data.json'') = Some r
      \<and> response_json p r = Inl e \<longrightarrow>
      result (sw_sync p ''emergency-data-sync'' cs) = Rejected e"
    by (simp add: sw_sync_def syncEmergencyData_result)
  have d: "result (sw_sync p ''student-scans-sync'' cs) = Resolved \<longrightarrow>
      entry (store (sw_sync p ''student-scans-sync'' cs)) CACHE_NAME
        (origin p @ ''/student-scans.json'') = None"
    by (simp add: sw_sync_def syncStudentScans_entry)
  have e: "result (sw_sync p ''student-scans-sync'' cs) = Rejected e \<longrightarrow>
      store (sw_sync p ''student-scans-sync'' cs) = cs
      \<and> (\<exists>r. entry cs CACHE_NAME (origin p @ ''/student-scans.json'') = Some r
             \<and> response_json p r = Inl e)"
    by (auto simp: sw_sync_def syncStudentScans_rejected syncStudentScans_result
        split: option.splits sum.splits)
  have f: "entry cs CACHE_NAME (origin p @ ''/student-scans.json'') = Some r
      \<and> response_json p r = Inl e \<longrightarrow>
      result (sw_sync p ''student-scans-sync'' cs) = Rejected e"
    by (simp add: sw_sync_def syncStudentScans_result)
  have g: "json_ok p s \<longrightarrow>
      result (sw_sync p ''emergency-data-sync''
                (sw_message p (CACHE_EMERGENCY_DATA (JsonText s)) cs)) = Resolved
      \<and> entry (store (sw_sync p ''emergency-data-sync''
                (sw_message p (CACHE_EMERGENCY_DATA (JsonText s)) cs))) CACHE_NAME
          (origin p @ ''/emergency-data.json'') = None"
    by (simp add: sw_sync_def syncEmergencyData_entry syncEmergencyData_result
        entry_sw_message_text response_json_def new_Response_def)
  from a b c d e f g show ?thesis by blast
qed

theorem sw_sync_flush_witness:
  "result (sw_sync offline_platform ''emergency-data-sync''
     (sw_message offline_platform (CACHE_EMERGENCY_DATA (JsonText ''[1]'')) [])) = Resolved
 \<and> entry (store (sw_sync offline_platform ''emergency-data-sync''
     (sw_message offline_platform (CACHE_EMERGENCY_DATA (JsonText ''[1]'')) []))) CACHE_NAME
       ''https://app.example/emergency-data.json'' = None
 \<and> result (sw_sync offline_platform ''emergency-data-sync''
     (sw_message offline_platform (CACHE_EMERGENCY_DATA JsonUndefined) []))
     = Rejected (SyntaxError ''Unexpected end of JSON input'')
 \<and> store (sw_sync offline_platform ''emergency-data-sync''
     (sw_message offline_platform (CACHE_EMERGENCY_DATA JsonUndefined) []))
     = sw_message offline_platform (CACHE_EMERGENCY_DATA JsonUndefined) []"
proof -
  let ?written = "sw_message offline_platform (CACHE_EMERGENCY_DATA JsonUndefined) []"
  have ok: "json_ok offline_platform ''[1]''"
    by (simp add: offline_platform_def)
  have o: "origin offline_platform = ''https://app.example''"
    by (simp add: offline_platform_def)
  have w: "entry ?written CACHE_NAME (origin offline_platform @ ''/emergency-data.json'')
             = Some (new_Response NoBody [])
           \<and> response_json offline_platform (new_Response NoBody [])
             = Inl (SyntaxError ''Unexpected end of JSON input'')"
    by (simp add: sw_message_def Let_def entry_cache_put map_of_caches_open_self
        response_json_def new_Response_def)
  note good = sw_sync_flush [of offline_platform "[]" _ _ "''[1]''"]
  note bad = sw_sync_flush [of offline_platform ?written "SyntaxError ''Unexpected end of JSON input''"
                   "new_Response NoBody []" "''[1]''"]
  from bad w have r: "result (sw_sync offline_platform ''emergency-data-sync'' ?written)
      = Rejected (SyntaxError ''Unexpected end of JSON input'')"
    by blast
  with bad have s: "store (sw_sync offline_platform ''emergency-data-sync'' ?written) = ?written"
    by blast
  from good ok have g: "result (sw_sync offline_platform ''emergency-data-sync''
     (sw_message offline_platform (CACHE_EMERGENCY_DATA (JsonText ''[1]'')) [])) = Resolved
   \<and> entry (store (sw_sync offline_platform ''emergency-data-sync''
     (sw_message offline_platform (CACHE_EMERGENCY_DATA (JsonText ''[1]'')) []))) CACHE_NAME
       (origin offline_platform @ ''/emergency-data.json'') = None"
    by blast
  from g r s show ?thesis by (simp add: o)
qed

end
